theory Spec2Isabelle
  imports Main
begin

section \<open>The board command facade (python/commands/board/__init__.py)\<close>

subsection \<open>Data model\<close>

text \<open>
  The four specialised command objects held by \<open>BoardCommands\<close>:
  \<open>size_commands\<close>, \<open>layer_commands\<close>, \<open>outline_commands\<close>, \<open>view_commands\<close>.
\<close>

datatype category = Size | Layer | Outline | View

text \<open>
  Modelled from the spec: the classes \<open>BoardSizeCommands\<close>, \<open>BoardLayerCommands\<close>,
  \<open>BoardOutlineCommands\<close> and \<open>BoardViewCommands\<close> are imported from the sibling modules
  \<open>.size\<close>, \<open>.layers\<close>, \<open>.outline\<close>, \<open>.view\<close>, which are not among the sources. The
  spec describes a sub-handler as an object that accepts a document handle and keeps its
  own copy of the reference; the facade reads and assigns that copy as the attribute
  \<open>board\<close>. A handle is \<open>Optional[pcbnew.BOARD]\<close>: \<open>None\<close> is the absent handle.
\<close>

record 'h sub_commands =
  board :: "'h option"

text \<open>
  Modelled from the spec: the constructor of a sub-handler class, called in
  \<open>BoardCommands.__init__\<close> as \<open>BoardSizeCommands(board)\<close> and so on; the spec says each
  sub-handler is initialised with the handle it is given.
\<close>

definition new_sub_commands :: "'h option \<Rightarrow> 'h sub_commands" where
  "new_sub_commands b = \<lparr>board = b\<rparr>"

text \<open>The fields of a \<open>BoardCommands\<close> object; \<open>priv_board\<close> is \<open>self._board\<close>.\<close>

record 'h board_commands =
  priv_board :: "'h option"
  size_commands :: "'h sub_commands"
  layer_commands :: "'h sub_commands"
  outline_commands :: "'h sub_commands"
  view_commands :: "'h sub_commands"

text \<open>
  What the facade does besides updating its fields is recorded in a trace: the records it
  hands to the logger \<open>kicad_interface\<close> and the calls it makes on its sub-handlers
  (which sub-handler, which method, which argument).
\<close>

datatype level = DEBUG | INFO

datatype 'p event = Log level string | Call category string 'p

text \<open>
  The program state a method of the facade runs in: the facade object, everything outside
  it that a sub-handler operation may read or change through the toolkit (\<open>world\<close>), and
  the trace.
\<close>

record ('h, 'p, 'w) state =
  facade :: "'h board_commands"
  world :: 'w
  trace :: "'p event list"

text \<open>
  The operations of the sub-handlers are not among the sources, so they are a parameter:
  \<open>ops c name\<close> is the method \<open>name\<close> of the sub-handler of category \<open>c\<close>. It runs on the
  sub-handler object itself, the argument \<open>params\<close> and the outside world; it raises
  (\<open>Inl e\<close>) or returns (\<open>Inr r\<close>), and leaves the sub-handler object and the world as it
  made them. A sub-handler holds no reference to the facade or to its siblings, so it
  cannot change them.
\<close>

type_synonym ('h, 'p, 'e, 'r, 'w) sub_op =
  "'h sub_commands \<Rightarrow> 'p \<Rightarrow> 'w \<Rightarrow> ('e + 'r) \<times> 'h sub_commands \<times> 'w"

type_synonym ('h, 'p, 'e, 'r, 'w) sub_ops =
  "category \<Rightarrow> string \<Rightarrow> ('h, 'p, 'e, 'r, 'w) sub_op"

type_synonym ('h, 'p, 'e, 'r, 'w) facade_method =
  "('h, 'p, 'e, 'r, 'w) sub_ops \<Rightarrow> 'p \<Rightarrow> ('h, 'p, 'w) state \<Rightarrow> ('e + 'r) \<times> ('h, 'p, 'w) state"

subsection \<open>Construction, getter and setter\<close>

text \<open>\<open>BoardCommands.__init__(self, board=None)\<close>.\<close>

definition init :: "'h option \<Rightarrow> 'h board_commands" where
  "init b =
     \<lparr>priv_board = b,
      size_commands = new_sub_commands b,
      layer_commands = new_sub_commands b,
      outline_commands = new_sub_commands b,
      view_commands = new_sub_commands b\<rparr>"

text \<open>Python's \<open>str\<close> of a \<open>bool\<close>, as an f-string prints it.\<close>

definition py_bool :: "bool \<Rightarrow> string" where
  "py_bool b = (if b then ''True'' else ''False'')"

definition logger_debug :: "string \<Rightarrow> ('h, 'p, 'w) state \<Rightarrow> ('h, 'p, 'w) state" where
  "logger_debug msg s = s\<lparr>trace := trace s @ [Log DEBUG msg]\<rparr>"

definition logger_info :: "string \<Rightarrow> ('h, 'p, 'w) state \<Rightarrow> ('h, 'p, 'w) state" where
  "logger_info msg s = s\<lparr>trace := trace s @ [Log INFO msg]\<rparr>"

text \<open>The property \<open>board\<close>, read: the value returned and the state afterwards.\<close>

definition board_getter :: "('h, 'p, 'w) state \<Rightarrow> 'h option \<times> ('h, 'p, 'w) state" where
  "board_getter s = (priv_board (facade s), s)"

text \<open>The property \<open>board\<close>, assigned: five assignments in the source's order, then the debug record.\<close>

definition board_setter :: "'h option \<Rightarrow> ('h, 'p, 'w) state \<Rightarrow> ('h, 'p, 'w) state" where
  "board_setter val s =
     (let f0 = facade s;
          f1 = f0\<lparr>priv_board := val\<rparr>;
          f2 = f1\<lparr>size_commands := (size_commands f1)\<lparr>board := val\<rparr>\<rparr>;
          f3 = f2\<lparr>layer_commands := (layer_commands f2)\<lparr>board := val\<rparr>\<rparr>;
          f4 = f3\<lparr>outline_commands := (outline_commands f3)\<lparr>board := val\<rparr>\<rparr>;
          f5 = f4\<lparr>view_commands := (view_commands f4)\<lparr>board := val\<rparr>\<rparr>
      in logger_debug
           (''BoardCommands: board reference updated and propagated to all sub-commands. board is None: ''
              @ py_bool (val = None))
           (s\<lparr>facade := f5\<rparr>))"

text \<open>A sequence of assignments to the property, first to last.\<close>

definition set_documents :: "'h option list \<Rightarrow> ('h, 'p, 'w) state \<Rightarrow> ('h, 'p, 'w) state" where
  "set_documents hs s = fold board_setter hs s"

subsection \<open>Delegation methods\<close>

fun handler :: "category \<Rightarrow> 'h board_commands \<Rightarrow> 'h sub_commands" where
  "handler Size f = size_commands f"
| "handler Layer f = layer_commands f"
| "handler Outline f = outline_commands f"
| "handler View f = view_commands f"

fun set_handler :: "category \<Rightarrow> 'h sub_commands \<Rightarrow> 'h board_commands \<Rightarrow> 'h board_commands" where
  "set_handler Size h f = f\<lparr>size_commands := h\<rparr>"
| "set_handler Layer h f = f\<lparr>layer_commands := h\<rparr>"
| "set_handler Outline h f = f\<lparr>outline_commands := h\<rparr>"
| "set_handler View h f = f\<lparr>view_commands := h\<rparr>"

text \<open>
  The expression \<open>self.<c>_commands.<name>(params)\<close>: the call is recorded, the method
  of the sub-handler runs on that sub-handler and the world, and its outcome (the value
  returned or the exception raised) is the outcome of the expression.
\<close>

definition call_sub ::
  "('h, 'p, 'e, 'r, 'w) sub_ops \<Rightarrow> category \<Rightarrow> string \<Rightarrow> 'p \<Rightarrow> ('h, 'p, 'w) state
     \<Rightarrow> ('e + 'r) \<times> ('h, 'p, 'w) state" where
  "call_sub ops c name params s =
     (case ops c name (handler c (facade s)) params (world s) of
        (out, h', w') \<Rightarrow>
          (out, s\<lparr>facade := set_handler c h' (facade s), world := w',
                  trace := trace s @ [Call c name params]\<rparr>))"

text \<open>
  Each method is \<open>return self.<c>_commands.<name>(params)\<close>: an exception of the callee
  leaves the method as it is, there is no handler around the call.
\<close>

definition set_board_size :: "('h, 'p, 'e, 'r, 'w) facade_method" where
  "set_board_size ops params s = call_sub ops Size ''set_board_size'' params s"

definition add_layer :: "('h, 'p, 'e, 'r, 'w) facade_method" where
  "add_layer ops params s = call_sub ops Layer ''add_layer'' params s"

definition set_active_layer :: "('h, 'p, 'e, 'r, 'w) facade_method" where
  "set_active_layer ops params s = call_sub ops Layer ''set_active_layer'' params s"

definition get_layer_list :: "('h, 'p, 'e, 'r, 'w) facade_method" where
  "get_layer_list ops params s = call_sub ops Layer ''get_layer_list'' params s"

definition add_board_outline :: "('h, 'p, 'e, 'r, 'w) facade_method" where
  "add_board_outline ops params s = call_sub ops Outline ''add_board_outline'' params s"

definition add_mounting_hole :: "('h, 'p, 'e, 'r, 'w) facade_method" where
  "add_mounting_hole ops params s = call_sub ops Outline ''add_mounting_hole'' params s"

definition add_text :: "('h, 'p, 'e, 'r, 'w) facade_method" where
  "add_text ops params s = call_sub ops Outline ''add_text'' params s"

text \<open>\<open>get_board_info\<close> first logs whether \<open>self.board\<close> (the property) is \<open>None\<close>.\<close>

definition get_board_info :: "('h, 'p, 'e, 'r, 'w) facade_method" where
  "get_board_info ops params s =
     (case board_getter s of
        (b, s1) \<Rightarrow>
          call_sub ops View ''get_board_info'' params
            (logger_info
               (''BoardCommands.get_board_info() called. self.board is None: '' @ py_bool (b = None))
               s1))"

definition get_board_2d_view :: "('h, 'p, 'e, 'r, 'w) facade_method" where
  "get_board_2d_view ops params s = call_sub ops View ''get_board_2d_view'' params s"

definition get_board_extents :: "('h, 'p, 'e, 'r, 'w) facade_method" where
  "get_board_extents ops params s = call_sub ops View ''get_board_extents'' params s"

text \<open>
  The operations the class defines, by name: calling the operation \<open>name\<close> on a facade
  is calling the method this table gives for \<open>name\<close>.
\<close>

definition methods :: "(string \<times> ('h, 'p, 'e, 'r, 'w) facade_method) list" where
  "methods =
     [(''set_board_size'', set_board_size),
      (''add_layer'', add_layer),
      (''set_active_layer'', set_active_layer),
      (''get_layer_list'', get_layer_list),
      (''add_board_outline'', add_board_outline),
      (''add_mounting_hole'', add_mounting_hole),
      (''add_text'', add_text),
      (''get_board_info'', get_board_info),
      (''get_board_2d_view'', get_board_2d_view),
      (''get_board_extents'', get_board_extents)]"

text \<open>The calls on sub-handlers that a trace records, in order.\<close>

fun calls_of :: "'p event list \<Rightarrow> (category \<times> string \<times> 'p) list" where
  "calls_of [] = []"
| "calls_of (Log l m # es) = calls_of es"
| "calls_of (Call c n p # es) = (c, n, p) # calls_of es"

subsection \<open>The routing table and the dispatcher of the specification\<close>

text \<open>
  The routing table as the specification prints it (operation name, owning category).
  It follows the specification's words and is compared with the methods above.
\<close>

definition routing_table :: "(string \<times> category) list" where
  "routing_table =
     [(''set_board_size'', Size),
      (''add_layer'', Layer),
      (''set_active_layer'', Layer),
      (''get_layer_list'', Layer),
      (''add_board_outline'', Outline),
      (''add_mounting_hole'', Outline),
      (''add_text'', Outline),
      (''get_board_info'', View),
      (''get_board_2d_view'', View),
      (''get_board_extents'', View)]"

text \<open>
  Modelled from the spec: the entry point \<open>invoke(operationName, params)\<close> and the error
  kind \<open>UnknownOperation\<close>. Neither is among the sources: \<open>BoardCommands\<close> defines the
  ten methods above and no dispatcher by name. In the specification's words, \<open>invoke\<close>
  looks up which sub-handler owns the name in the routing table, forwards \<open>params\<close>
  unchanged to that sub-handler's like-named operation and returns its result unchanged;
  it fails with \<open>UnknownOperation\<close> when no sub-handler owns the name, and an error of the
  sub-handler reaches the caller as it was raised.
\<close>

datatype 'e failure = UnknownOperation | SubHandlerError 'e

definition invoke ::
  "('h, 'p, 'e, 'r, 'w) sub_ops \<Rightarrow> string \<Rightarrow> 'p \<Rightarrow> ('h, 'p, 'w) state
     \<Rightarrow> ('e failure + 'r) \<times> ('h, 'p, 'w) state" where
  "invoke ops name params s =
     (case map_of routing_table name of
        None \<Rightarrow> (Inl UnknownOperation, s)
      | Some c \<Rightarrow>
          (case call_sub ops c name params s of
             (Inl e, s') \<Rightarrow> (Inl (SubHandlerError e), s')
           | (Inr r, s') \<Rightarrow> (Inr r, s')))"

section \<open>The diagnostic script (diagnose_board_load.py)\<close>

text \<open>
  The model covers the script from its first line to the end of the import guard (lines
  10 to 32), which decide whether the script ends before its three board tests. The
  tests themselves (lines 34 to 156) are not modelled: when control reaches line 34 the
  model says so and no more.
\<close>

subsection \<open>The outside world as the script meets it\<close>

text \<open>
  The exceptions the script can meet, by what tells them apart here: \<open>ImportError\<close>
  and its subclasses, which the guard catches; every other subclass of \<open>Exception\<close>;
  and the exceptions outside \<open>Exception\<close>, which differ in how the interpreter ends
  when nothing catches them: \<open>SystemExit\<close> (with the exit status its code stands for),
  \<open>KeyboardInterrupt\<close>, and the rest. An exception carries the name of its type and
  its text (\<open>str(e)\<close>).
\<close>

datatype exn_class =
  ImportError | OtherException | SystemExit nat | KeyboardInterrupt | OtherBaseException

datatype exn = Exn (kind: exn_class) (type_name: string) (message: string)

text \<open>
  One run's environment: what \<open>sys\<close>, \<open>os\<close>, the standard output and \<open>pcbnew\<close> answer
  where the script asks.
  \<^item> \<open>str_of_list\<close> is Python's own text of a list of strings, as an f-string shows it;
  \<^item> \<open>print_error k\<close> is the type and text of the error (an \<open>OSError\<close>, a
    \<open>UnicodeEncodeError\<close>) that the \<open>print\<close> executed after \<open>k\<close> successful ones
    raises, \<open>None\<close> when it writes its line;
  \<^item> \<open>flush_fails\<close> says that flushing the standard output fails when the interpreter
    shuts down;
  \<^item> \<open>import_pcbnew\<close> is the exception that \<open>import pcbnew\<close> raises, \<open>None\<close> when
    the module loads; \<open>pcbnew_file\<close> and \<open>get_build_version\<close> are the outcomes of
    \<open>pcbnew.__file__\<close> and \<open>pcbnew.GetBuildVersion()\<close>: the exception raised (\<open>Inl\<close>)
    or the text printed for the value (\<open>Inr\<close>).
  A signal that arrives between two statements is outside the model; an interrupt during
  a call is that call raising \<open>KeyboardInterrupt\<close>.
\<close>

record env =
  sys_platform :: string
  sys_version :: string
  sys_executable :: string
  initial_sys_path :: "string list"
  os_path_exists :: "string \<Rightarrow> bool"
  str_of_list :: "string list \<Rightarrow> string"
  print_error :: "nat \<Rightarrow> (string \<times> string) option"
  flush_fails :: bool
  import_pcbnew :: "exn option"
  pcbnew_file :: "exn + string"
  get_build_version :: "exn + string"

text \<open>The state of the script: \<open>sys.path\<close> and the lines written to standard output.\<close>

record script_state =
  sys_path :: "string list"
  printed :: "string list"

text \<open>
  A statement ends normally (\<open>None\<close>) or raises (\<open>Some e\<close>), in the state it reached.
  \<open>and_then\<close> is the sequence of two statements: the second runs only when the first
  ends normally.
\<close>

type_synonym result = "exn option \<times> script_state"

definition and_then :: "result \<Rightarrow> (script_state \<Rightarrow> result) \<Rightarrow> result" where
  "and_then r f = (case r of (Some e, st) \<Rightarrow> (Some e, st) | (None, st) \<Rightarrow> f st)"

text \<open>\<open>print(line)\<close>: the line is written, or the write fails with an error.\<close>

definition print :: "env \<Rightarrow> string \<Rightarrow> script_state \<Rightarrow> result" where
  "print ev line st =
     (case print_error ev (length (printed st)) of
        Some (name, text) \<Rightarrow> (Some (Exn OtherException name text), st)
      | None \<Rightarrow> (None, st\<lparr>printed := printed st @ [line]\<rparr>))"

subsection \<open>Path setup (lines 13 to 18)\<close>

definition versions :: "string list" where
  "versions = [''3.9'', ''3.10'', ''3.11'', ''3.12'', ''3.13'']"

definition site_packages :: "string \<Rightarrow> string" where
  "site_packages version =
     ''/Applications/KiCad/KiCad.app/Contents/Frameworks/Python.framework/Versions/'' @ version
       @ ''/lib/python'' @ version @ ''/site-packages''"

text \<open>The \<open>for\<close> loop; \<open>sys.path.insert(0, path)\<close> puts \<open>path\<close> in front.\<close>

fun add_kicad_paths :: "(string \<Rightarrow> bool) \<Rightarrow> string list \<Rightarrow> string list \<Rightarrow> string list" where
  "add_kicad_paths ex [] sp = sp"
| "add_kicad_paths ex (version # vs) sp =
     (let path = site_packages version
      in if ex path \<and> path \<notin> set sp
         then add_kicad_paths ex vs (path # sp)
         else add_kicad_paths ex vs sp)"

definition path_setup :: "string \<Rightarrow> (string \<Rightarrow> bool) \<Rightarrow> string list \<Rightarrow> string list" where
  "path_setup platform ex sp =
     (if platform = ''darwin'' then add_kicad_paths ex versions sp else sp)"

subsection \<open>Header (lines 20 to 23)\<close>

definition print_header :: "env \<Rightarrow> script_state \<Rightarrow> result" where
  "print_header ev st =
     and_then
       (and_then
          (and_then (print ev (''Python version: '' @ sys_version ev) st)
             (print ev (''Python executable: '' @ sys_executable ev)))
          (print ev (''sys.path: '' @ str_of_list ev (take 5 (sys_path st)) @ ''...'')))
       (print ev [])"

subsection \<open>The import guard (lines 25 to 32)\<close>

text \<open>
  The body of the \<open>try\<close> (lines 26 to 29). The value in an f-string is computed before
  the line is printed.
\<close>

definition import_body :: "env \<Rightarrow> script_state \<Rightarrow> result" where
  "import_body ev st =
     (case import_pcbnew ev of
        Some e \<Rightarrow> (Some e, st)
      | None \<Rightarrow>
          (case pcbnew_file ev of
             Inl e \<Rightarrow> (Some e, st)
           | Inr f \<Rightarrow>
               and_then (print ev (''pcbnew imported from: '' @ f) st)
                 (\<lambda>st1. case get_build_version ev of
                          Inl e \<Rightarrow> (Some e, st1)
                        | Inr v \<Rightarrow>
                            and_then (print ev (''pcbnew version: '' @ v) st1) (print ev []))))"

text \<open>
  The clause \<open>except ImportError as e\<close> (lines 30 to 32), entered with the exception \<open>e\<close>
  of the body: an \<open>ImportError\<close> is reported and \<open>sys.exit(1)\<close> raises \<open>SystemExit(1)\<close>;
  any other exception is not handled here and goes on.
\<close>

definition except_ImportError :: "env \<Rightarrow> exn \<Rightarrow> script_state \<Rightarrow> result" where
  "except_ImportError ev e st =
     (if kind e = ImportError
      then and_then (print ev (''FAILED to import pcbnew: '' @ message e) st)
             (\<lambda>st1. (Some (Exn (SystemExit 1) ''SystemExit'' ''1''), st1))
      else (Some e, st))"

definition import_guard :: "env \<Rightarrow> script_state \<Rightarrow> result" where
  "import_guard ev st =
     (case import_body ev st of
        (Some e, st1) \<Rightarrow> except_ImportError ev e st1
      | (None, st1) \<Rightarrow> (None, st1))"

subsection \<open>The script up to the tests, and how the interpreter ends\<close>

text \<open>
  Lines 10 to 32. Nothing encloses them, so an exception that leaves a statement leaves
  the script. The result \<open>None\<close> is control reaching line 34, the first test.
\<close>

definition prologue :: "env \<Rightarrow> result" where
  "prologue ev =
     and_then
       (print_header ev
          \<lparr>sys_path = path_setup (sys_platform ev) (os_path_exists ev) (initial_sys_path ev),
           printed = []\<rparr>)
       (import_guard ev)"

text \<open>
  How the process ends when the exception \<open>e\<close> reaches the top level. \<open>SystemExit\<close>
  gives the status of its code; a \<open>KeyboardInterrupt\<close> ends the process by the interrupt
  signal, with no exit status of its own; any other exception is reported with its
  traceback and gives status 1. A failing flush of the standard output at shutdown
  turns the status into 120.
\<close>

datatype ending = Exit nat | Killed_by_SIGINT

definition shutdown :: "env \<Rightarrow> exn \<Rightarrow> ending" where
  "shutdown ev e =
     (case kind e of
        KeyboardInterrupt \<Rightarrow> Killed_by_SIGINT
      | SystemExit n \<Rightarrow> Exit (if flush_fails ev then 120 else n)
      | _ \<Rightarrow> Exit (if flush_fails ev then 120 else 1))"

text \<open>
  How the script ends when it ends before its tests; \<open>None\<close> when control reaches the
  tests.
\<close>

definition early_end :: "env \<Rightarrow> ending option" where
  "early_end ev = map_option (shutdown ev) (fst (prologue ev))"

section \<open>Example inputs\<close>

text \<open>
  Sub-handler operations for the examples: an operation rejects an empty argument and
  otherwise answers with its own name; it leaves its sub-handler as it is and counts the
  call in the world.
\<close>

definition echo_ops :: "(nat, string, string, string, nat) sub_ops" where
  "echo_ops c name h params w =
     (if params = [] then Inl ''params missing'' else Inr (name @ '' done''), h, Suc w)"


definition loaded :: "(nat, string, nat) state" where
  "loaded = \<lparr>facade = init (Some 1), world = 0, trace = []\<rparr>"

text \<open>A file system on which only the site-packages directory of Python 3.11 exists.\<close>

definition only_311 :: "string \<Rightarrow> bool" where
  "only_311 p = (p = site_packages ''3.11'')"

text \<open>
  Environments for the diagnostic script: one in which KiCad's module loads and every
  call answers; one without a \<open>pcbnew\<close> module; one in which \<open>import pcbnew\<close> finds a
  stray package of that name (it has no file and no \<open>GetBuildVersion\<close>); and one without
  the module whose standard output is a full device, so that every \<open>print\<close> fills the
  buffer and the flush at shutdown fails.
\<close>

definition healthy_env :: env where
  "healthy_env =
     \<lparr>sys_platform = ''linux'',
      sys_version = ''3.11.4'',
      sys_executable = ''/usr/bin/python3'',
      initial_sys_path = [],
      os_path_exists = (\<lambda>p. False),
      str_of_list = (\<lambda>xs. ''[]''),
      print_error = (\<lambda>k. None),
      flush_fails = False,
      import_pcbnew = None,
      pcbnew_file = Inr ''/usr/lib/python3/dist-packages/pcbnew.py'',
      get_build_version = Inr ''9.0.0''\<rparr>"

definition no_pcbnew_env :: env where
  "no_pcbnew_env =
     healthy_env\<lparr>import_pcbnew :=
       Some (Exn ImportError ''ModuleNotFoundError'' ''No module named pcbnew'')\<rparr>"

definition stray_pcbnew_env :: env where
  "stray_pcbnew_env =
     healthy_env\<lparr>pcbnew_file := Inr ''None'',
       get_build_version :=
         Inl (Exn OtherException ''AttributeError''
                ''module pcbnew has no attribute GetBuildVersion'')\<rparr>"

definition full_device_env :: env where
  "full_device_env = no_pcbnew_env\<lparr>flush_fails := True\<rparr>"

section \<open>Properties of the facade\<close>

subsection \<open>Auxiliary facts\<close>

lemma calls_of_append: "calls_of (xs @ ys) = calls_of xs @ calls_of ys"
  by (induction xs rule: calls_of.induct) auto

text \<open>
  Every method of the class whose name the routing table lists is one call of the
  sub-handler the table names, from a state that differs from the caller's in log
  records only.
\<close>

lemma method_delegates:
  assumes "map_of methods name = Some m" and "map_of routing_table name = Some c"
  shows "\<exists>s0. m ops params s = call_sub ops c name params s0
            \<and> facade s0 = facade s \<and> world s0 = world s
            \<and> calls_of (trace s0) = calls_of (trace s)"
proof -
  have info: "\<exists>s0. get_board_info ops params s = call_sub ops View ''get_board_info'' params s0
            \<and> facade s0 = facade s \<and> world s0 = world s
            \<and> calls_of (trace s0) = calls_of (trace s)"
    by (simp add: get_board_info_def board_getter_def logger_info_def calls_of_append)
       (rule exI [of _ "logger_info m s" for m], simp add: logger_info_def calls_of_append)
  from assms show ?thesis
    using info
    by (auto simp: methods_def routing_table_def set_board_size_def add_layer_def
          set_active_layer_def get_layer_list_def add_board_outline_def add_mounting_hole_def
          add_text_def get_board_2d_view_def get_board_extents_def split: if_splits)
qed

lemma routed_has_method:
  "map_of routing_table name = Some c \<Longrightarrow> \<exists>m. map_of methods name = Some m"
  by (simp add: routing_table_def methods_def split: if_splits)



lemma call_sub_result:
  "fst (call_sub ops c name params s) = fst (ops c name (handler c (facade s)) params (world s))"
  by (simp add: call_sub_def split: prod.splits)

lemma call_sub_state:
  "snd (call_sub ops c name params s) =
     s\<lparr>facade := set_handler c (fst (snd (ops c name (handler c (facade s)) params (world s))))
                  (facade s),
       world := snd (snd (ops c name (handler c (facade s)) params (world s))),
       trace := trace s @ [Call c name params]\<rparr>"
  by (simp add: call_sub_def split: prod.splits)

lemma setter_facade: "facade (board_setter h s) = init h"
  by (simp add: board_setter_def logger_debug_def Let_def init_def new_sub_commands_def)

lemma setter_world: "world (board_setter h s) = world s"
  by (simp add: board_setter_def logger_debug_def Let_def)

lemma set_documents_snoc: "set_documents (hs @ [h]) s = board_setter h (set_documents hs s)"
  by (simp add: set_documents_def)

lemma methods_add_layer: "map_of methods ''add_layer'' = Some add_layer"
  by (simp add: methods_def)

lemma methods_set_board_size: "map_of methods ''set_board_size'' = Some set_board_size"
  by (simp add: methods_def)


subsection \<open>The handle is the same everywhere\<close>

text \<open>
  Claim C1. After the last assignment \<open>h\<close> of any sequence of assignments to the
  property \<open>board\<close>, from any state, the facade's getter answers \<open>h\<close> and each of the
  four sub-handlers holds \<open>h\<close>: none keeps an earlier handle. Every call of a sequence
  is the last call of a prefix, so this holds after each call.
\<close>

theorem setter_propagates_to_all:
  "fst (board_getter (set_documents (hs @ [h]) s)) = h
   \<and> board (size_commands (facade (set_documents (hs @ [h]) s))) = h
   \<and> board (layer_commands (facade (set_documents (hs @ [h]) s))) = h
   \<and> board (outline_commands (facade (set_documents (hs @ [h]) s))) = h
   \<and> board (view_commands (facade (set_documents (hs @ [h]) s))) = h"
  by (simp add: set_documents_snoc setter_facade board_getter_def init_def new_sub_commands_def)

text \<open>
  Claim C5. Constructing the facade with any handle \<open>h\<close>, the absent one included, is a
  total function with no error branch; it creates the four sub-handlers, each by its
  constructor applied to \<open>h\<close>, and afterwards the facade's getter and each sub-handler
  give \<open>h\<close>.
\<close>

theorem init_hands_handle_to_all:
  "priv_board (init h) = h
   \<and> size_commands (init h) = new_sub_commands h
   \<and> layer_commands (init h) = new_sub_commands h
   \<and> outline_commands (init h) = new_sub_commands h
   \<and> view_commands (init h) = new_sub_commands h
   \<and> fst (board_getter \<lparr>facade = init h, world = w, trace = t\<rparr>) = h
   \<and> board (size_commands (init h)) = h
   \<and> board (layer_commands (init h)) = h
   \<and> board (outline_commands (init h)) = h
   \<and> board (view_commands (init h)) = h
   \<and> fst (board_getter \<lparr>facade = init None, world = w, trace = t\<rparr>) = None
   \<and> board (size_commands (init None)) = None
   \<and> board (layer_commands (init None)) = None
   \<and> board (outline_commands (init None)) = None
   \<and> board (view_commands (init None)) = None"
  by (simp add: init_def new_sub_commands_def board_getter_def)

text \<open>
  Claim C7. The getter of the property \<open>board\<close> returns the facade's current handle and
  leaves the whole state (the facade with its four sub-handlers, the world, the trace)
  as it was.
\<close>

theorem getter_is_pure_read: "board_getter s = (priv_board (facade s), s)"
  by (simp add: board_getter_def)

text \<open>
  Claim C8. Assigning \<open>h1\<close> and then \<open>h2\<close> leaves the facade and its four sub-handlers
  (and the world) exactly as assigning \<open>h2\<close> alone does; in particular assigning the
  same handle twice is assigning it once.
\<close>

theorem setter_overwrites:
  "facade (board_setter h2 (board_setter h1 s)) = facade (board_setter h2 s)
   \<and> world (board_setter h2 (board_setter h1 s)) = world (board_setter h2 s)
   \<and> facade (board_setter h (board_setter h s)) = facade (board_setter h s)"
  by (simp add: setter_facade setter_world)

subsection \<open>Delegation\<close>

text \<open>
  Claim C2. For every name of the routing table, with owner \<open>c\<close>, the class has a
  method of that name; called with any \<open>params\<close> in any state it makes exactly one call
  on a sub-handler, the operation of the same name of \<open>c\<close> with \<open>params\<close> as given,
  and its outcome is the outcome of that operation.
\<close>

theorem routed_method_calls_owner_once:
  fixes ops :: "('h, 'p, 'e, 'r, 'w) sub_ops"
  assumes "map_of routing_table name = Some c"
  shows "\<exists>m. map_of methods name = Some m
           \<and> fst (m ops params s) = fst (ops c name (handler c (facade s)) params (world s))
           \<and> calls_of (trace (snd (m ops params s))) = calls_of (trace s) @ [(c, name, params)]"
proof -
  from assms obtain m :: "('h, 'p, 'e, 'r, 'w) facade_method"
    where m: "map_of methods name = Some m"
    using routed_has_method by blast
  from method_delegates [OF m assms, of ops params s] obtain s0 where
    eq: "m ops params s = call_sub ops c name params s0"
    and same: "facade s0 = facade s" "world s0 = world s"
      "calls_of (trace s0) = calls_of (trace s)"
    by blast
  have "fst (m ops params s) = fst (ops c name (handler c (facade s)) params (world s))"
    by (simp add: eq call_sub_result same)
  moreover have "calls_of (trace (snd (m ops params s))) = calls_of (trace s) @ [(c, name, params)]"
    by (simp add: eq call_sub_state same calls_of_append)
  ultimately show ?thesis using m by blast
qed

theorem routed_method_calls_owner_once_witness:
  "map_of routing_table ''add_layer'' = Some Layer
   \<and> fst (add_layer echo_ops ''F.Cu'' loaded) = Inr ''add_layer done''
   \<and> calls_of (trace (snd (add_layer echo_ops ''F.Cu'' loaded))) = [(Layer, ''add_layer'', ''F.Cu'')]"
proof -
  have r: "map_of routing_table ''add_layer'' = Some Layer"
    by (simp add: routing_table_def)
  from routed_method_calls_owner_once [OF r, of echo_ops "''F.Cu''" loaded]
  have "fst (add_layer echo_ops ''F.Cu'' loaded)
          = fst (echo_ops Layer ''add_layer'' (handler Layer (facade loaded)) ''F.Cu'' (world loaded))
        \<and> calls_of (trace (snd (add_layer echo_ops ''F.Cu'' loaded)))
          = calls_of (trace loaded) @ [(Layer, ''add_layer'', ''F.Cu'')]"
    by (simp add: methods_add_layer)
  then show ?thesis
    using r by (simp add: echo_ops_def loaded_def)
qed

text \<open>
  Claim C4. For every name of the routing table, if the operation of that name of the
  owning sub-handler raises \<open>e\<close>, the facade's method of that name raises the same \<open>e\<close>.
\<close>

theorem routed_method_propagates_error:
  assumes "map_of routing_table name = Some c"
    and "map_of methods name = Some m"
    and "fst (ops c name (handler c (facade s)) params (world s)) = Inl e"
  shows "fst (m ops params s) = Inl e"
proof -
  from method_delegates [OF assms(2) assms(1), of ops params s] obtain s0 where
    eq: "m ops params s = call_sub ops c name params s0"
    and same: "facade s0 = facade s" "world s0 = world s"
    by blast
  show ?thesis
    by (simp add: eq call_sub_result same assms(3))
qed

theorem routed_method_propagates_error_witness:
  "map_of routing_table ''set_board_size'' = Some Size
   \<and> map_of methods ''set_board_size''
       = Some (set_board_size :: (nat, string, string, string, nat) facade_method)
   \<and> fst (echo_ops Size ''set_board_size'' (handler Size (facade loaded)) [] (world loaded))
       = Inl ''params missing''
   \<and> fst (set_board_size echo_ops [] loaded) = Inl ''params missing''"
proof -
  have r: "map_of routing_table ''set_board_size'' = Some Size"
    by (simp add: routing_table_def)
  have e: "fst (echo_ops Size ''set_board_size'' (handler Size (facade loaded)) [] (world loaded))
             = Inl ''params missing''"
    by (simp add: echo_ops_def)
  have "fst (set_board_size echo_ops [] loaded) = Inl ''params missing''"
    using r e
    by (rule routed_method_propagates_error
          [where name = "''set_board_size''" and c = Size and m = set_board_size
             and ops = echo_ops and s = loaded and params = "[]", OF _ methods_set_board_size])
  then show ?thesis using r e by (simp add: methods_set_board_size)
qed




subsection \<open>Unknown operation names\<close>

text \<open>
  Claim C3. For a name that the routing table does not list, \<open>invoke\<close> fails with
  \<open>UnknownOperation\<close> and leaves the state, the trace of calls included, as it was: no
  sub-handler is called. \<open>UnknownOperation\<close> arises in no other case, and every other
  failure of \<open>invoke\<close> is the error that the owning sub-handler's operation raised.
\<close>

theorem invoke_unknown_operation:
  "(map_of routing_table name = None \<longrightarrow> invoke ops name params s = (Inl UnknownOperation, s))
   \<and> (fst (invoke ops name params s) = Inl UnknownOperation \<longrightarrow> map_of routing_table name = None)
   \<and> (\<forall>e. fst (invoke ops name params s) = Inl (SubHandlerError e) \<longrightarrow>
         (\<exists>c. map_of routing_table name = Some c
            \<and> fst (ops c name (handler c (facade s)) params (world s)) = Inl e))"
  by (auto simp: invoke_def call_sub_def split: option.splits prod.splits sum.splits)

theorem invoke_unknown_operation_witness:
  "map_of routing_table ''no_such_operation'' = None
   \<and> invoke echo_ops ''no_such_operation'' [] loaded = (Inl UnknownOperation, loaded)"
proof -
  have r: "map_of routing_table ''no_such_operation'' = None"
    by (simp add: routing_table_def)
  from invoke_unknown_operation [of "''no_such_operation''" echo_ops "[]" loaded] r
  show ?thesis by blast
qed


section \<open>Properties of the diagnostic script\<close>

subsection \<open>Path setup\<close>

lemma add_kicad_paths_new:
  "\<exists>new. add_kicad_paths ex vs sp = new @ sp \<and> distinct new
         \<and> (\<forall>p \<in> set new. p \<in> site_packages ` set vs \<and> ex p \<and> p \<notin> set sp)"
proof (induction vs arbitrary: sp)
  case Nil
  show ?case by simp
next
  case (Cons version vs)
  let ?path = "site_packages version"
  show ?case
  proof (cases "ex ?path \<and> ?path \<notin> set sp")
    case True
    from Cons.IH [of "?path # sp"] obtain new where
      new: "add_kicad_paths ex vs (?path # sp) = new @ ?path # sp" "distinct new"
        "\<forall>p \<in> set new. p \<in> site_packages ` set vs \<and> ex p \<and> p \<notin> set (?path # sp)"
      by blast
    have "add_kicad_paths ex (version # vs) sp = (new @ [?path]) @ sp"
      using True new(1) by simp
    moreover have "distinct (new @ [?path])"
      using new(2,3) by auto
    moreover have "\<forall>p \<in> set (new @ [?path]).
        p \<in> site_packages ` set (version # vs) \<and> ex p \<and> p \<notin> set sp"
      using True new(3) by auto
    ultimately show ?thesis by blast
  next
    case False
    from Cons.IH [of sp] obtain new where
      new: "add_kicad_paths ex vs sp = new @ sp" "distinct new"
        "\<forall>p \<in> set new. p \<in> site_packages ` set vs \<and> ex p \<and> p \<notin> set sp"
      by blast
    have "add_kicad_paths ex (version # vs) sp = new @ sp"
      using False new(1) by auto
    moreover have "\<forall>p \<in> set new. p \<in> site_packages ` set (version # vs) \<and> ex p \<and> p \<notin> set sp"
      using new(3) by auto
    ultimately show ?thesis using new(2) by blast
  qed
qed

text \<open>
  Claim C10. On a platform other than \<open>darwin\<close> the block leaves \<open>sys.path\<close> as it was.
  On every platform the new \<open>sys.path\<close> is the old one with new entries in front; the
  new entries are pairwise different, and each of them is there only on \<open>darwin\<close>, is a
  candidate site-packages path, exists on disk and was not in \<open>sys.path\<close> before: the
  block adds no duplicate.
\<close>

theorem path_setup_adds_no_duplicate:
  "(platform \<noteq> ''darwin'' \<longrightarrow> path_setup platform ex sp = sp)
   \<and> (\<exists>new. path_setup platform ex sp = new @ sp \<and> distinct new
         \<and> (\<forall>p \<in> set new. platform = ''darwin'' \<and> p \<in> site_packages ` set versions
               \<and> ex p \<and> p \<notin> set sp))"
proof (cases "platform = ''darwin''")
  case True
  then show ?thesis
    using add_kicad_paths_new [of ex versions sp] by (simp add: path_setup_def)
next
  case False
  then show ?thesis by (simp add: path_setup_def)
qed

theorem path_setup_adds_no_duplicate_witness:
  "''linux'' \<noteq> ''darwin''
   \<and> path_setup ''linux'' only_311 [''/usr/lib/python3''] = [''/usr/lib/python3'']
   \<and> (\<exists>new. path_setup ''darwin'' only_311 [''/usr/lib/python3''] = new @ [''/usr/lib/python3'']
         \<and> new = [site_packages ''3.11''] \<and> distinct new \<and> only_311 (site_packages ''3.11'')
         \<and> site_packages ''3.11'' \<notin> set [''/usr/lib/python3''])"
proof -
  have run: "path_setup ''darwin'' only_311 [''/usr/lib/python3'']
               = [site_packages ''3.11''] @ [''/usr/lib/python3'']"
    by (simp add: path_setup_def versions_def only_311_def site_packages_def)
  from path_setup_adds_no_duplicate [of "''darwin''" only_311 "[''/usr/lib/python3'']"]
  obtain new where new: "path_setup ''darwin'' only_311 [''/usr/lib/python3'']
        = new @ [''/usr/lib/python3'']" "distinct new"
      "\<forall>p \<in> set new. only_311 p \<and> p \<notin> set [''/usr/lib/python3'']"
    by auto
  from new(1) run have eq: "new = [site_packages ''3.11'']" by simp
  from path_setup_adds_no_duplicate [of "''linux''" only_311 "[''/usr/lib/python3'']"]
  have "path_setup ''linux'' only_311 [''/usr/lib/python3''] = [''/usr/lib/python3'']"
    by simp
  then show ?thesis using new eq by simp
qed

subsection \<open>The import guard\<close>

lemma print_outcome:
  "print ev line st = (None, st\<lparr>printed := printed st @ [line]\<rparr>)
   \<or> (\<exists>name text. print ev line st = (Some (Exn OtherException name text), st))"
  by (auto simp: print_def split: option.splits)

lemma shutdown_plain:
  "kind e = OtherException \<or> kind e = SystemExit 1
     \<Longrightarrow> shutdown ev e = Exit (if flush_fails ev then 120 else 1)"
  by (auto simp: shutdown_def)

lemma header_outcome:
  "(\<exists>st1. print_header ev st = (None, st1))
   \<or> (\<exists>name text st1. print_header ev st = (Some (Exn OtherException name text), st1))"
proof -
  have step: "(\<exists>st1. and_then r (print ev l) = (None, st1))
      \<or> (\<exists>name text st1. and_then r (print ev l) = (Some (Exn OtherException name text), st1))"
    if "(\<exists>st1. r = (None, st1)) \<or> (\<exists>name text st1. r = (Some (Exn OtherException name text), st1))"
    for r l
    using that print_outcome [of ev l] by (auto simp: and_then_def) metis
  have first: "(\<exists>st1. print ev l st = (None, st1))
      \<or> (\<exists>name text st1. print ev l st = (Some (Exn OtherException name text), st1))" for l
    using print_outcome [of ev l st] by auto
  show ?thesis
    unfolding print_header_def by (intro step first)
qed

lemma guard_on_import_error:
  assumes "import_pcbnew ev = Some e" and "kind e = ImportError"
  shows "\<exists>x st1. import_guard ev st = (Some x, st1)
           \<and> (kind x = OtherException \<or> kind x = SystemExit 1)"
  using assms print_outcome [of ev "''FAILED to import pcbnew: '' @ message e" st]
  by (auto simp: import_guard_def import_body_def except_ImportError_def and_then_def)

text \<open>
  Claim C9, as amended. If \<open>import pcbnew\<close> raises an \<open>ImportError\<close>, the script ends
  before control reaches the first of its three board tests, and the process ends with
  exit status 1, or with 120 when the flush of the standard output fails at shutdown.
\<close>

theorem import_error_ends_script:
  assumes "import_pcbnew ev = Some e" and "kind e = ImportError"
  shows "fst (prologue ev) \<noteq> None
       \<and> early_end ev = Some (Exit (if flush_fails ev then 120 else 1))"
proof -
  let ?st0 = "\<lparr>sys_path = path_setup (sys_platform ev) (os_path_exists ev) (initial_sys_path ev),
               printed = []\<rparr>"
  have "\<exists>x st1. prologue ev = (Some x, st1) \<and> (kind x = OtherException \<or> kind x = SystemExit 1)"
  proof -
    from header_outcome [of ev ?st0] show ?thesis
    proof
      assume "\<exists>st1. print_header ev ?st0 = (None, st1)"
      then obtain st1 where "print_header ev ?st0 = (None, st1)" by blast
      then have "prologue ev = import_guard ev st1"
        by (simp add: prologue_def and_then_def)
      then show ?thesis
        using guard_on_import_error [OF assms, of st1] by simp
    next
      assume "\<exists>name msg st1. print_header ev ?st0 = (Some (Exn OtherException name msg), st1)"
      then obtain name msg st1 where
        "print_header ev ?st0 = (Some (Exn OtherException name msg), st1)" by blast
      then have "prologue ev = (Some (Exn OtherException name msg), st1)"
        by (simp add: prologue_def and_then_def)
      then show ?thesis by simp
    qed
  qed
  then obtain x st1 where x: "prologue ev = (Some x, st1)"
    "kind x = OtherException \<or> kind x = SystemExit 1"
    by blast
  show ?thesis
    using x(1) shutdown_plain [OF x(2), of ev] by (simp add: early_end_def)
qed

theorem import_error_ends_script_witness:
  "import_pcbnew no_pcbnew_env
     = Some (Exn ImportError ''ModuleNotFoundError'' ''No module named pcbnew'')
   \<and> kind (Exn ImportError ''ModuleNotFoundError'' ''No module named pcbnew'') = ImportError
   \<and> fst (prologue no_pcbnew_env) \<noteq> None
   \<and> early_end no_pcbnew_env = Some (Exit 1)"
proof -
  have i: "import_pcbnew no_pcbnew_env
             = Some (Exn ImportError ''ModuleNotFoundError'' ''No module named pcbnew'')"
    by (simp add: no_pcbnew_env_def)
  have k: "kind (Exn ImportError ''ModuleNotFoundError'' ''No module named pcbnew'') = ImportError"
    by simp
  have f: "\<not> flush_fails no_pcbnew_env"
    by (simp add: no_pcbnew_env_def healthy_env_def)
  from import_error_ends_script [OF i k] f i k show ?thesis by simp
qed

text \<open>
  Claim C9 as stated fails in both directions. With a stray \<open>pcbnew\<close> package the import
  raises nothing, \<open>pcbnew.GetBuildVersion()\<close> raises an \<open>AttributeError\<close> that
  \<open>except ImportError\<close> does not catch, and the process ends with status 1 before the
  tests. With no \<open>pcbnew\<close> module and the standard output on a full device the import
  raises \<open>ImportError\<close> and the process ends with status 120, not 1.
\<close>

theorem exit_status_iff_import_error_counterexample:
  "import_pcbnew stray_pcbnew_env = None
   \<and> early_end stray_pcbnew_env = Some (Exit 1)
   \<and> import_pcbnew full_device_env
       = Some (Exn ImportError ''ModuleNotFoundError'' ''No module named pcbnew'')
   \<and> early_end full_device_env = Some (Exit 120)"
  by (simp add: early_end_def prologue_def print_header_def import_guard_def import_body_def
        except_ImportError_def and_then_def print_def shutdown_def
        stray_pcbnew_env_def full_device_env_def no_pcbnew_env_def healthy_env_def)


end
